theory Spec2Isabelle
  imports Main
begin

section \<open>The account service of server.js\<close>

text \<open>
  server.js is an Express application whose handlers validate the request body and forward
  to three services: the identity provider (\<^verbatim>\<open>admin.auth()\<close>), the document store
  (\<^verbatim>\<open>db.collection(..)\<close>) and the session store behind \<^verbatim>\<open>req.session\<close>.
  The handlers are embedded as functions on an explicit world state. Every call of a
  service is a step on that state which either returns a value or throws; what is thrown
  is a value of type \<open>error\<close>, and a \<^verbatim>\<open>try { .. } catch\<close> is a case
  distinction on the result.
\<close>

subsection \<open>Data\<close>

text \<open>
  A field of \<^verbatim>\<open>req.body\<close> is \<open>None\<close> when the request does not carry it
  (\<^verbatim>\<open>undefined\<close>) and \<open>Some s\<close> when it carries the string \<open>s\<close>.
  \<^verbatim>\<open>!x\<close> holds for \<^verbatim>\<open>undefined\<close> and for the empty string.
\<close>

type_synonym field = "string option"

fun falsy :: "field \<Rightarrow> bool" where
  "falsy None = True"
| "falsy (Some s) = (s = [])"

text \<open>
  Account ids and session ids are opaque, non-empty strings chosen by the services; they
  are numbered here in the order in which they are issued.
\<close>

type_synonym uid = nat
type_synonym sid = nat

record account =
  acc_uid :: uid
  acc_email :: string
  acc_password :: string

text \<open>A document of the collection \<^verbatim>\<open>users\<close>, keyed by account id.\<close>

record user_doc =
  d_username :: string
  d_isAdmin :: bool
  d_createdAt :: nat
  d_lastLogin :: "nat option"

text \<open>A document of the collection \<^verbatim>\<open>contacts\<close>.\<close>

record contact_doc =
  c_name :: string
  c_email :: string
  c_message :: string
  c_receivedAt :: nat

text \<open>
  \<^verbatim>\<open>req.session\<close>: the two properties the handlers write, \<open>None\<close> while a
  property is not set.
\<close>

record session =
  s_uid :: "uid option"
  s_isAdmin :: "bool option"

definition empty_session :: session where
  "empty_session = \<lparr>s_uid = None, s_isAdmin = None\<rparr>"

text \<open>The service operations that the handlers of server.js invoke.\<close>

datatype call =
  CreateUser | GetUserByEmail | UpdateUser
| DocSet | DocGet | DocUpdate | ContactsAdd
| SessionDestroy

text \<open>
  What a rejected promise or a callback carries. An error of a service has a
  \<^verbatim>\<open>code\<close>; \<^verbatim>\<open>new Error(msg)\<close> has none.
\<close>

datatype error = SdkError string | PlainError string

fun error_code :: "error \<Rightarrow> string option" where
  "error_code (SdkError c) = Some c"
| "error_code (PlainError m) = None"

text \<open>
  The state outside the process: the accounts of the identity provider, the two
  collections of the document store with the store's clock, the session store, and the
  record \<open>calls\<close> of the service operations invoked so far, oldest first.
\<close>

record world =
  accounts :: "account list"
  next_uid :: uid
  users :: "uid \<rightharpoonup> user_doc"
  contacts :: "contact_doc list"
  clock :: nat
  sessions :: "sid \<rightharpoonup> session"
  next_sid :: sid
  calls :: "call list"

text \<open>
  Failures of the services that the state does not determine (the network, the provider
  rejecting an argument, a store being unavailable) are an input of each request:
  \<open>f c = Some code\<close> makes operation \<open>c\<close> throw an error with that code during the
  request, leaving the service's data as it was.
\<close>

type_synonym faults = "call \<Rightarrow> string option"

type_synonym 'a io = "world \<Rightarrow> (error + 'a) \<times> world"

definition invoke :: "call \<Rightarrow> world \<Rightarrow> world" where
  "invoke c w = w\<lparr>calls := calls w @ [c]\<rparr>"

text \<open>
  \<^verbatim>\<open>const x = await m; k(x)\<close> inside a \<^verbatim>\<open>try\<close> block: a rejection of
  \<open>m\<close> skips \<open>k\<close>.
\<close>

definition await :: "'a io \<Rightarrow> ('a \<Rightarrow> 'b io) \<Rightarrow> 'b io" where
  "await m k w = (case m w of (Inl e, w') \<Rightarrow> (Inl e, w') | (Inr x, w') \<Rightarrow> k x w')"

definition throw :: "error \<Rightarrow> 'a io" where
  "throw e w = (Inl e, w)"

definition return :: "'a \<Rightarrow> 'a io" where
  "return x w = (Inr x, w)"

subsection \<open>Identity provider\<close>

text \<open>
  Modelled from the spec: the identity provider client (the package firebase-admin, which
  server.js requires and which is not part of the repository) with the contract of section
  4.3: create-account(identifier, credential) gives an account id or the duplicate error,
  get-account-by-identifier gives the account or the not-found error,
  set-credential(account id, credential) gives ok. This covers \<open>find_account\<close>,
  \<open>createUser\<close>, \<open>getUserByEmail\<close>, \<open>set_password\<close> and \<open>updateUser\<close>. The error
  codes are the ones server.js compares with or the provider documents.
\<close>

definition find_account :: "string \<Rightarrow> account list \<Rightarrow> account option" where
  "find_account email as = find (\<lambda>a. acc_email a = email) as"

definition createUser :: "faults \<Rightarrow> string \<Rightarrow> string \<Rightarrow> uid io" where
  "createUser f email password w =
     (let w1 = invoke CreateUser w in
      case f CreateUser of
        Some c \<Rightarrow> (Inl (SdkError c), w1)
      | None \<Rightarrow>
          (case find_account email (accounts w1) of
             Some a \<Rightarrow> (Inl (SdkError ''auth/email-already-exists''), w1)
           | None \<Rightarrow>
               (Inr (next_uid w1),
                w1\<lparr>accounts := accounts w1 @
                      [\<lparr>acc_uid = next_uid w1, acc_email = email, acc_password = password\<rparr>],
                    next_uid := Suc (next_uid w1)\<rparr>)))"

definition getUserByEmail :: "faults \<Rightarrow> string \<Rightarrow> uid io" where
  "getUserByEmail f email w =
     (let w1 = invoke GetUserByEmail w in
      case f GetUserByEmail of
        Some c \<Rightarrow> (Inl (SdkError c), w1)
      | None \<Rightarrow>
          (case find_account email (accounts w1) of
             None \<Rightarrow> (Inl (SdkError ''auth/user-not-found''), w1)
           | Some a \<Rightarrow> (Inr (acc_uid a), w1)))"

definition set_password :: "uid \<Rightarrow> string \<Rightarrow> account \<Rightarrow> account" where
  "set_password u password a = (if acc_uid a = u then a\<lparr>acc_password := password\<rparr> else a)"

definition updateUser :: "faults \<Rightarrow> uid \<Rightarrow> string \<Rightarrow> unit io" where
  "updateUser f u password w =
     (let w1 = invoke UpdateUser w in
      case f UpdateUser of
        Some c \<Rightarrow> (Inl (SdkError c), w1)
      | None \<Rightarrow>
          (case find (\<lambda>a. acc_uid a = u) (accounts w1) of
             None \<Rightarrow> (Inl (SdkError ''auth/user-not-found''), w1)
           | Some a \<Rightarrow>
               (Inr (), w1\<lparr>accounts := map (set_password u password) (accounts w1)\<rparr>)))"

subsection \<open>Document store\<close>

text \<open>
  Modelled from the spec: the profile store client (Firestore, reached through
  firebase-admin) with the contract of section 4.3: profile get, set and update by account
  id, and the append of a contact message. This covers \<open>users_set\<close>, \<open>users_get\<close>,
  \<open>users_update_lastLogin\<close> and \<open>contacts_add\<close>; their arguments are the fields that
  server.js passes. A field written as \<^verbatim>\<open>FieldValue.serverTimestamp()\<close>
  receives the store's clock, which advances with every write.
\<close>

definition users_set :: "faults \<Rightarrow> uid \<Rightarrow> string \<Rightarrow> bool \<Rightarrow> unit io" where
  "users_set f u name adm w =
     (let w1 = invoke DocSet w in
      case f DocSet of
        Some c \<Rightarrow> (Inl (SdkError c), w1)
      | None \<Rightarrow>
          (Inr (),
           w1\<lparr>users := (users w1)(u \<mapsto>
                  \<lparr>d_username = name, d_isAdmin = adm,
                   d_createdAt = clock w1, d_lastLogin = None\<rparr>),
               clock := Suc (clock w1)\<rparr>))"

text \<open>
  \<^verbatim>\<open>doc(u).get()\<close>: the snapshot, \<open>None\<close> when \<^verbatim>\<open>exists\<close> is false.
\<close>

definition users_get :: "faults \<Rightarrow> uid \<Rightarrow> user_doc option io" where
  "users_get f u w =
     (let w1 = invoke DocGet w in
      case f DocGet of
        Some c \<Rightarrow> (Inl (SdkError c), w1)
      | None \<Rightarrow> (Inr (users w1 u), w1))"

definition users_update_lastLogin :: "faults \<Rightarrow> uid \<Rightarrow> unit io" where
  "users_update_lastLogin f u w =
     (let w1 = invoke DocUpdate w in
      case f DocUpdate of
        Some c \<Rightarrow> (Inl (SdkError c), w1)
      | None \<Rightarrow>
          (case users w1 u of
             None \<Rightarrow> (Inl (SdkError ''not-found''), w1)
           | Some d \<Rightarrow>
               (Inr (),
                w1\<lparr>users := (users w1)(u \<mapsto> d\<lparr>d_lastLogin := Some (clock w1)\<rparr>),
                    clock := Suc (clock w1)\<rparr>)))"

definition contacts_add :: "faults \<Rightarrow> string \<Rightarrow> string \<Rightarrow> string \<Rightarrow> unit io" where
  "contacts_add f name email message w =
     (let w1 = invoke ContactsAdd w in
      case f ContactsAdd of
        Some c \<Rightarrow> (Inl (SdkError c), w1)
      | None \<Rightarrow>
          (Inr (),
           w1\<lparr>contacts := contacts w1 @
                  [\<lparr>c_name = name, c_email = email, c_message = message,
                    c_receivedAt = clock w1\<rparr>],
               clock := Suc (clock w1)\<rparr>))"

subsection \<open>Session store\<close>

text \<open>
  Modelled from the spec: the session store (the package express-session, configured in
  lines 55 to 60 with \<^verbatim>\<open>saveUninitialized: true\<close>) with the contract of section
  4.2: get(token) gives the record or absent, destroy(token) removes it, and a destroyed
  or absent token never resolves to a stale record. This covers \<open>session_destroy\<close>,
  \<open>generate\<close>, \<open>load_session\<close> and \<open>save_session\<close>. \<open>session_destroy\<close> is
  \<^verbatim>\<open>req.session.destroy(cb)\<close>; its result is the \<^verbatim>\<open>err\<close> passed to
  the callback. The lookup and the storing around a handler are the middleware's own work
  and are not entered in \<open>calls\<close>.
\<close>

definition session_destroy :: "faults \<Rightarrow> sid \<Rightarrow> world \<Rightarrow> error option \<times> world" where
  "session_destroy f t w =
     (let w1 = invoke SessionDestroy w in
      case f SessionDestroy of
        Some c \<Rightarrow> (Some (SdkError c), w1)
      | None \<Rightarrow> (None, w1\<lparr>sessions := (sessions w1)(t := None)\<rparr>))"

text \<open>
  Before a handler runs, the session of the request's cookie is looked up; a request
  without a cookie, or with a token that the store does not hold, gets a new, empty
  session under a new id.
\<close>

definition generate :: "world \<Rightarrow> sid \<times> session \<times> world" where
  "generate w = (next_sid w, empty_session, w\<lparr>next_sid := Suc (next_sid w)\<rparr>)"

definition load_session :: "sid option \<Rightarrow> world \<Rightarrow> sid \<times> session \<times> world" where
  "load_session cookie w =
     (case cookie of
        None \<Rightarrow> generate w
      | Some t \<Rightarrow>
          (case sessions w t of
             None \<Rightarrow> generate w
           | Some s \<Rightarrow> (t, s, w)))"

text \<open>
  After the handler, a session that was not destroyed is stored under its id
  (\<open>None\<close> is a destroyed session: \<^verbatim>\<open>req.session\<close> has been deleted).
\<close>

definition save_session :: "sid \<Rightarrow> session option \<Rightarrow> world \<Rightarrow> world" where
  "save_session t so w =
     (case so of None \<Rightarrow> w | Some s \<Rightarrow> w\<lparr>sessions := (sessions w)(t \<mapsto> s)\<rparr>)"

subsection \<open>Responses and handlers\<close>

datatype body =
  Success
| ErrorMsg string
| LoggedOut
| LoggedIn string bool

record response =
  status :: nat
  body :: body
  clears_cookie :: bool

definition json :: "nat \<Rightarrow> body \<Rightarrow> response" where
  "json st b = \<lparr>status = st, body = b, clears_cookie = False\<rparr>"

text \<open>
  A handler receives the id and the content of \<^verbatim>\<open>req.session\<close> and the world; it
  gives the response, the session as the handler leaves it and the world.
\<close>

type_synonym handler = "sid \<Rightarrow> session \<Rightarrow> world \<Rightarrow> response \<times> session option \<times> world"

definition serve :: "handler \<Rightarrow> sid option \<Rightarrow> world \<Rightarrow> response \<times> sid \<times> world" where
  "serve h cookie w =
     (case load_session cookie w of
        (t, s, w1) \<Rightarrow>
          (case h t s w1 of
             (r, so, w2) \<Rightarrow> (r, t, save_session t so w2)))"

definition login_email :: "string \<Rightarrow> string" where
  "login_email username = username @ ''@aicloude.com''"

text \<open>
  \<^verbatim>\<open>app.post('/register', ..)\<close>, lines 80 to 110. In every handler the guard on
  the fields comes first, so \<open>the\<close> is applied to fields that are present only.
\<close>

definition register_try :: "faults \<Rightarrow> string \<Rightarrow> string \<Rightarrow> unit io" where
  "register_try f username password =
     await (createUser f (login_email username) password) (\<lambda>user.
     users_set f user username False)"

definition register :: "faults \<Rightarrow> field \<Rightarrow> field \<Rightarrow> handler" where
  "register f username password t s w =
     (if falsy username \<or> falsy password
      then (json 400 (ErrorMsg ''Username and password required''), Some s, w)
      else
        (case register_try f (the username) (the password) w of
           (Inr _, w') \<Rightarrow> (json 200 Success, Some s, w')
         | (Inl e, w') \<Rightarrow>
             (json 400 (ErrorMsg
                (if error_code e = Some ''auth/email-already-exists''
                 then ''Username already exists''
                 else ''Registration failed'')),
              Some s, w')))"

text \<open>\<^verbatim>\<open>app.post('/login', ..)\<close>, lines 113 to 143.\<close>

definition login_try :: "faults \<Rightarrow> string \<Rightarrow> string \<Rightarrow> session \<Rightarrow> session io" where
  "login_try f username password s =
     await (getUserByEmail f (login_email username)) (\<lambda>user.
     await (updateUser f user password) (\<lambda>_.
     await (users_get f user) (\<lambda>userDoc.
       case userDoc of
         None \<Rightarrow> throw (PlainError ''User document not found'')
       | Some d \<Rightarrow>
           await (users_update_lastLogin f user) (\<lambda>_.
           return (s\<lparr>s_uid := Some user, s_isAdmin := Some (d_isAdmin d)\<rparr>)))))"

definition login :: "faults \<Rightarrow> field \<Rightarrow> field \<Rightarrow> handler" where
  "login f username password t s w =
     (if falsy username \<or> falsy password
      then (json 400 (ErrorMsg ''Credentials required''), Some s, w)
      else
        (case login_try f (the username) (the password) s w of
           (Inr s', w') \<Rightarrow> (json 200 Success, Some s', w')
         | (Inl e, w') \<Rightarrow> (json 401 (ErrorMsg ''Invalid credentials''), Some s, w')))"

text \<open>\<^verbatim>\<open>app.get('/api/user', ..)\<close>, lines 146 to 168.\<close>

definition api_user :: "faults \<Rightarrow> handler" where
  "api_user f t s w =
     (case s_uid s of
        None \<Rightarrow> (json 200 LoggedOut, Some s, w)
      | Some u \<Rightarrow>
          (case users_get f u w of
             (Inl e, w1) \<Rightarrow> (json 500 LoggedOut, Some s, w1)
           | (Inr None, w1) \<Rightarrow>
               (case session_destroy f t w1 of
                  (err, w2) \<Rightarrow> (json 200 LoggedOut, None, w2))
           | (Inr (Some d), w1) \<Rightarrow>
               (json 200 (LoggedIn (d_username d) (d_isAdmin d)), Some s, w1)))"

text \<open>\<^verbatim>\<open>app.post('/contact', ..)\<close>, lines 174 to 194.\<close>

definition contact :: "faults \<Rightarrow> field \<Rightarrow> field \<Rightarrow> field \<Rightarrow> handler" where
  "contact f name email message t s w =
     (if falsy name \<or> falsy email \<or> falsy message
      then (json 400 (ErrorMsg ''All fields required''), Some s, w)
      else
        (case contacts_add f (the name) (the email) (the message) w of
           (Inr _, w') \<Rightarrow> (json 200 Success, Some s, w')
         | (Inl e, w') \<Rightarrow> (json 500 (ErrorMsg ''Message submission failed''), Some s, w')))"

text \<open>\<^verbatim>\<open>app.post('/logout', ..)\<close>, lines 197 to 206.\<close>

definition logout :: "faults \<Rightarrow> handler" where
  "logout f t s w =
     (case session_destroy f t w of
        (Some err, w1) \<Rightarrow> (json 500 (ErrorMsg ''Logout failed''), None, w1)
      | (None, w1) \<Rightarrow> ((json 200 Success)\<lparr>clears_cookie := True\<rparr>, None, w1))"

subsection \<open>Startup\<close>

text \<open>
  Lines 7 to 45. \<open>env\<close> is \<^verbatim>\<open>process.env\<close> as it is when line 7 runs. The
  object \<^verbatim>\<open>serviceAccount\<close> is the list of its properties; a property is
  \<open>None\<close> when the variable it is read from is not set. Line 11 calls
  \<^verbatim>\<open>.replace(/\\n/g, '\n')\<close> on the private key, which throws a TypeError when
  the variable is not set.
\<close>

type_synonym env = "string \<rightharpoonup> string"

fun replace_nl :: "string \<Rightarrow> string" where
  "replace_nl (c # d # cs) =
     (if c = CHR 0x5C \<and> d = CHR ''n'' then CHR 0x0A # replace_nl cs
      else c # replace_nl (d # cs))"
| "replace_nl cs = cs"

definition serviceAccount :: "env \<Rightarrow> string \<Rightarrow> (string \<times> field) list" where
  "serviceAccount e private_key =
     [(''type'', e ''FIREBASE_TYPE''),
      (''project_id'', e ''FIREBASE_PROJECT_ID''),
      (''private_key_id'', e ''FIREBASE_PRIVATE_KEY_ID''),
      (''private_key'', Some private_key),
      (''client_email'', e ''FIREBASE_CLIENT_EMAIL''),
      (''client_id'', e ''FIREBASE_CLIENT_ID''),
      (''auth_uri'', e ''FIREBASE_AUTH_URI''),
      (''token_uri'', e ''FIREBASE_TOKEN_URI''),
      (''auth_provider_x509_cert_url'', e ''FIREBASE_AUTH_PROVIDER_X509_CERT_URL''),
      (''client_x509_cert_url'', e ''FIREBASE_CLIENT_X509_CERT_URL''),
      (''universe_domain'', e ''FIREBASE_UNIVERSE_DOMAIN'')]"

definition requiredServiceAccountFields :: "string list" where
  "requiredServiceAccountFields =
     [''type'', ''project_id'', ''private_key_id'', ''private_key'',
      ''client_email'', ''client_id'', ''auth_uri'', ''token_uri'']"

text \<open>\<^verbatim>\<open>serviceAccount[field]\<close>\<close>

definition property :: "(string \<times> field) list \<Rightarrow> string \<Rightarrow> field" where
  "property obj name = (case map_of obj name of None \<Rightarrow> None | Some v \<Rightarrow> v)"

text \<open>A value inside a template literal.\<close>

fun template :: "field \<Rightarrow> string" where
  "template None = ''undefined''"
| "template (Some s) = s"

text \<open>
  How the start of the process ends: with the uncaught TypeError of line 11, with
  \<^verbatim>\<open>process.exit(code)\<close> at the named field, or by reaching
  \<^verbatim>\<open>admin.initializeApp\<close> with the service account and the database URL.
  Line 23 loads the file \<^verbatim>\<open>.env\<close> (\<open>dotenv\<close>, which sets the variables that
  are not set yet) after \<^verbatim>\<open>serviceAccount\<close> has been built, so only the
  database URL of line 39 sees it.
\<close>

datatype startup =
  Threw string
| Exited nat string
| Initialised "(string \<times> field) list" string

definition startup :: "env \<Rightarrow> env \<Rightarrow> startup" where
  "startup e dotenv =
     (case e ''FIREBASE_PRIVATE_KEY'' of
        None \<Rightarrow> Threw ''TypeError''
      | Some k \<Rightarrow>
          (let sa = serviceAccount e (replace_nl k);
               e' = dotenv ++ e in
           case find (\<lambda>field. falsy (property sa field)) requiredServiceAccountFields of
             Some field \<Rightarrow> Exited 1 field
           | None \<Rightarrow>
               Initialised sa
                 (if falsy (e' ''FIREBASE_DATABASE_URL'')
                  then ''https://'' @ template (property sa ''project_id'') @ ''.firebaseio.com''
                  else the (e' ''FIREBASE_DATABASE_URL''))))"

text \<open>
  The world of a login after \<^verbatim>\<open>getUserByEmail\<close> and \<^verbatim>\<open>updateUser\<close>
  have succeeded for the account \<open>u\<close>.
\<close>

definition after_update :: "uid \<Rightarrow> string \<Rightarrow> world \<Rightarrow> world" where
  "after_update u p w =
     (invoke UpdateUser (invoke GetUserByEmail w))
       \<lparr>accounts := map (set_password u p) (accounts w)\<rparr>"

subsection \<open>Example states\<close>

definition no_faults :: faults where
  "no_faults = (\<lambda>c. None)"

definition world0 :: world where
  "world0 = \<lparr>accounts = [], next_uid = 0, users = Map.empty, contacts = [], clock = 0,
             sessions = Map.empty, next_sid = 0, calls = []\<rparr>"

definition alice :: account where
  "alice = \<lparr>acc_uid = 0, acc_email = ''alice@aicloude.com'', acc_password = ''secret1''\<rparr>"

definition alice_doc :: user_doc where
  "alice_doc = \<lparr>d_username = ''alice'', d_isAdmin = False, d_createdAt = 0, d_lastLogin = None\<rparr>"

text \<open>The world after alice has registered, and the same world without her profile.\<close>

definition world1 :: world where
  "world1 = world0\<lparr>accounts := [alice], next_uid := 1, users := [0 \<mapsto> alice_doc], clock := 1\<rparr>"

definition world1_orphan :: world where
  "world1_orphan = world1\<lparr>users := Map.empty\<rparr>"

text \<open>
  A session of alice under token 7, created while she was not an administrator; and the
  same world after her profile has been deleted.
\<close>

definition alice_session :: session where
  "alice_session = \<lparr>s_uid = Some 0, s_isAdmin = Some False\<rparr>"

definition world2 :: world where
  "world2 = world1\<lparr>sessions := [7 \<mapsto> alice_session], next_sid := 8\<rparr>"

definition world2_orphan :: world where
  "world2_orphan = world2\<lparr>users := Map.empty\<rparr>"

text \<open>An environment with the eight required variables and nothing else.\<close>

definition env_min :: env where
  "env_min =
     [''FIREBASE_TYPE'' \<mapsto> ''service_account'',
      ''FIREBASE_PROJECT_ID'' \<mapsto> ''aicloude'',
      ''FIREBASE_PRIVATE_KEY_ID'' \<mapsto> ''k1'',
      ''FIREBASE_PRIVATE_KEY'' \<mapsto> ''key'',
      ''FIREBASE_CLIENT_EMAIL'' \<mapsto> ''svc@aicloude.iam'',
      ''FIREBASE_CLIENT_ID'' \<mapsto> ''42'',
      ''FIREBASE_AUTH_URI'' \<mapsto> ''https://auth'',
      ''FIREBASE_TOKEN_URI'' \<mapsto> ''https://token'']"

section \<open>Properties\<close>

subsection \<open>Evaluation and auxiliary facts\<close>

lemmas run_defs =
  serve_def load_session_def generate_def save_session_def register_def register_try_def
  login_def login_try_def api_user_def logout_def contact_def await_def throw_def return_def
  createUser_def getUserByEmail_def updateUser_def users_set_def users_get_def
  users_update_lastLogin_def contacts_add_def session_destroy_def invoke_def find_account_def
  login_email_def set_password_def json_def empty_session_def no_faults_def world0_def
  world1_def world1_orphan_def world2_def world2_orphan_def alice_def alice_doc_def alice_session_def Let_def

text \<open>
  The scenario of the specification: register, login, session check, logout, session check,
  each request carrying the token that the previous response issued.
\<close>

lemma scenario_alice:
  "(case serve (register no_faults (Some ''alice'') (Some ''secret1'')) None world0 of
      (r1, t1, w1) \<Rightarrow>
    case serve (login no_faults (Some ''alice'') (Some ''secret1'')) (Some t1) w1 of
      (r2, t2, w2) \<Rightarrow>
    case serve (api_user no_faults) (Some t2) w2 of
      (r3, t3, w3) \<Rightarrow>
    case serve (logout no_faults) (Some t3) w3 of
      (r4, t4, w4) \<Rightarrow>
    case serve (api_user no_faults) (Some t4) w4 of
      (r5, t5, w5) \<Rightarrow> [r1, r2, r3, r4, r5])
   = [json 200 Success, json 200 Success, json 200 (LoggedIn ''alice'' False),
      (json 200 Success)\<lparr>clears_cookie := True\<rparr>, json 200 LoggedOut]"
  by (simp add: run_defs)

lemma replace_nl_Nil: "replace_nl s = [] \<longleftrightarrow> s = []"
  by (induction s rule: replace_nl.induct) auto

subsection \<open>Validation\<close>

text \<open>
  C3. For every pair (username, password) in which either field is empty or missing, both
  Register and Login answer 400 with their validation message, and they invoke no operation
  of the identity provider, the profile store or the session store: the world, which
  includes the record of the invoked operations, and the session of the request are
  returned as they were received.
\<close>

theorem validation_rejects_without_calls:
  assumes "falsy username \<or> falsy password"
  shows "register f username password t s w =
           (json 400 (ErrorMsg ''Username and password required''), Some s, w)
       \<and> login f username password t s w =
           (json 400 (ErrorMsg ''Credentials required''), Some s, w)"
  using assms by (simp add: register_def login_def)

theorem validation_rejects_without_calls_witness:
  "(falsy (Some []) \<or> falsy None)
 \<and> register no_faults (Some []) None 3 alice_session world2 =
     (json 400 (ErrorMsg ''Username and password required''), Some alice_session, world2)
 \<and> login no_faults (Some []) None 3 alice_session world2 =
     (json 400 (ErrorMsg ''Credentials required''), Some alice_session, world2)"
  using validation_rejects_without_calls
    [where username = "Some []" and password = None and f = no_faults and t = 3
       and s = alice_session and w = world2]
  by simp

subsection \<open>Contact form\<close>

text \<open>
  C10. For every SubmitContact call: if any of name, email or message is missing (or
  empty), the answer is 400 and nothing changes; otherwise, when the store accepts the
  write, exactly one contact message is appended, carrying the three fields and the
  store's clock as its received timestamp, and the answer is the success response; when
  the store fails, the answer is 500 with the submission-failed message and no message
  is stored.
\<close>

theorem contact_outcomes:
  "(falsy name \<or> falsy email \<or> falsy message \<longrightarrow>
      contact f name email message t s w =
        (json 400 (ErrorMsg ''All fields required''), Some s, w))
 \<and> (n \<noteq> [] \<and> e \<noteq> [] \<and> m \<noteq> [] \<longrightarrow>
      (case contact f (Some n) (Some e) (Some m) t s w of (r, so, w') \<Rightarrow>
         (f ContactsAdd = None \<longrightarrow>
            r = json 200 Success
          \<and> contacts w' = contacts w @
              [\<lparr>c_name = n, c_email = e, c_message = m, c_receivedAt = clock w\<rparr>])
       \<and> (f ContactsAdd \<noteq> None \<longrightarrow>
            r = json 500 (ErrorMsg ''Message submission failed'')
          \<and> contacts w' = contacts w)))"
  by (auto simp: contact_def contacts_add_def invoke_def Let_def split: option.splits)

theorem contact_outcomes_witness:
  "falsy None
 \<and> contact no_faults (Some ''Bo'') None (Some ''hi'') 3 empty_session world1 =
     (json 400 (ErrorMsg ''All fields required''), Some empty_session, world1)
 \<and> fst (contact no_faults (Some ''Bo'') (Some ''bo@x.org'') (Some ''hi'') 3 empty_session world1)
     = json 200 Success
 \<and> contacts (snd (snd
       (contact no_faults (Some ''Bo'') (Some ''bo@x.org'') (Some ''hi'') 3 empty_session world1)))
     = [\<lparr>c_name = ''Bo'', c_email = ''bo@x.org'', c_message = ''hi'', c_receivedAt = 1\<rparr>]
 \<and> fst (contact (no_faults(ContactsAdd \<mapsto> ''unavailable''))
       (Some ''Bo'') (Some ''bo@x.org'') (Some ''hi'') 3 empty_session world1)
     = json 500 (ErrorMsg ''Message submission failed'')
 \<and> contacts (snd (snd (contact (no_faults(ContactsAdd \<mapsto> ''unavailable''))
       (Some ''Bo'') (Some ''bo@x.org'') (Some ''hi'') 3 empty_session world1)))
     = []"
  using
    contact_outcomes
      [where name = "Some ''Bo''" and email = None and message = "Some ''hi''"
         and n = "''Bo''" and e = "''bo@x.org''" and m = "''hi''"
         and f = no_faults and t = 3 and s = empty_session and w = world1]
    contact_outcomes
      [where name = "Some ''Bo''" and email = None and message = "Some ''hi''"
         and n = "''Bo''" and e = "''bo@x.org''" and m = "''hi''"
         and f = "no_faults(ContactsAdd \<mapsto> ''unavailable'')" and t = 3
         and s = empty_session and w = world1]
  by (simp add: run_defs)

subsection \<open>Session check\<close>

text \<open>
  C4. For every WhoAmI call with a session whose profile record exists (and whose fetch
  succeeds), the username and the admin flag of the answer are those of the profile record
  at the time of the call, whatever admin flag the session record cached at login; in
  particular, when the profile's admin flag is changed to \<open>b\<close> after the login, the
  answer carries \<open>b\<close>.
\<close>

theorem whoami_reads_profile:
  assumes "s_uid s = Some u" "users w u = Some d" "f DocGet = None"
  shows "fst (api_user f t s w) = json 200 (LoggedIn (d_username d) (d_isAdmin d))
       \<and> (\<forall>b. fst (api_user f t s (w\<lparr>users := (users w)(u \<mapsto> d\<lparr>d_isAdmin := b\<rparr>)\<rparr>))
                = json 200 (LoggedIn (d_username d) b))"
  using assms by (simp add: api_user_def users_get_def invoke_def Let_def)

theorem whoami_reads_profile_witness:
  "s_uid alice_session = Some 0 \<and> users world2 0 = Some alice_doc
 \<and> no_faults DocGet = None \<and> s_isAdmin alice_session = Some False
 \<and> fst (api_user no_faults 7 alice_session world2) = json 200 (LoggedIn ''alice'' False)
 \<and> fst (api_user no_faults 7 alice_session
          (world2\<lparr>users := (users world2)(0 \<mapsto> alice_doc\<lparr>d_isAdmin := True\<rparr>)\<rparr>))
     = json 200 (LoggedIn ''alice'' True)"
proof -
  have h: "s_uid alice_session = Some 0" "users world2 0 = Some alice_doc"
    "no_faults DocGet = None"
    by (simp_all add: run_defs)
  show ?thesis
    using h whoami_reads_profile
      [where s = alice_session and u = 0 and w = world2 and d = alice_doc
         and f = no_faults and t = 7, OF h]
    by (simp add: alice_doc_def alice_session_def)
qed

subsection \<open>Startup\<close>

text \<open>
  C9. At startup the credential bundle read from the environment is validated, and startup
  fails fast if any required field is absent: the process ends before the provider is
  initialised, with the TypeError of line 11 or with exit code 1 at a field of
  \<open>requiredServiceAccountFields\<close>, exactly when one of the eight variables behind the
  required fields (type, project id, private key id, private key, client email, client id,
  auth URI, token URI) is not set or empty. The two certificate URLs and the universe
  domain belong to the bundle and are not among the required fields.
\<close>

theorem startup_fails_without_required_field:
  "(falsy (e ''FIREBASE_TYPE'') \<or> falsy (e ''FIREBASE_PROJECT_ID'') \<or>
    falsy (e ''FIREBASE_PRIVATE_KEY_ID'') \<or> falsy (e ''FIREBASE_PRIVATE_KEY'') \<or>
    falsy (e ''FIREBASE_CLIENT_EMAIL'') \<or> falsy (e ''FIREBASE_CLIENT_ID'') \<or>
    falsy (e ''FIREBASE_AUTH_URI'') \<or> falsy (e ''FIREBASE_TOKEN_URI''))
   = (startup e dotenv = Threw ''TypeError''
      \<or> (\<exists>field \<in> set requiredServiceAccountFields. startup e dotenv = Exited 1 field))"
  by (auto simp: startup_def Let_def serviceAccount_def requiredServiceAccountFields_def
      property_def replace_nl_Nil split: option.splits)

theorem startup_fails_without_required_field_witness:
  "falsy ((env_min(''FIREBASE_CLIENT_ID'' := None)) ''FIREBASE_CLIENT_ID'')
 \<and> startup (env_min(''FIREBASE_CLIENT_ID'' := None)) Map.empty = Exited 1 ''client_id''
 \<and> startup (env_min(''FIREBASE_PRIVATE_KEY'' := None)) Map.empty = Threw ''TypeError''
 \<and> startup env_min Map.empty =
     Initialised (serviceAccount env_min ''key'') ''https://aicloude.firebaseio.com''"
  using
    startup_fails_without_required_field [of "env_min(''FIREBASE_CLIENT_ID'' := None)" Map.empty]
    startup_fails_without_required_field [of "env_min(''FIREBASE_PRIVATE_KEY'' := None)" Map.empty]
    startup_fails_without_required_field [of env_min Map.empty]
  by (simp add: startup_def Let_def serviceAccount_def requiredServiceAccountFields_def
      property_def env_min_def)

subsection \<open>Auxiliary facts on the identity provider and the session store\<close>

lemma find_account_map_set_password:
  "find_account email (map (set_password u p) as) =
     map_option (set_password u p) (find_account email as)"
  by (induction as) (auto simp: find_account_def set_password_def)

lemma find_account_uid:
  "find_account email as = Some a \<Longrightarrow> find (\<lambda>b. acc_uid b = acc_uid a) as \<noteq> None"
  by (induction as) (auto simp: find_account_def split: if_splits)

lemma find_account_snoc:
  "acc_email b = email \<Longrightarrow> \<exists>a. find_account email (as @ [b]) = Some a"
  by (induction as) (auto simp: find_account_def)

lemma after_update_simps:
  "users (after_update u p w) = users w"
  "sessions (after_update u p w) = sessions w"
  "calls (after_update u p w) = calls w @ [GetUserByEmail, UpdateUser]"
  "clock (after_update u p w) = clock w"
  by (simp_all add: after_update_def invoke_def)

lemma after_update_account:
  assumes "find_account email (accounts w) = Some a"
  shows "find_account email (accounts (after_update (acc_uid a) p w)) =
           Some (a\<lparr>acc_password := p\<rparr>)"
  using assms
  by (simp add: after_update_def invoke_def find_account_map_set_password set_password_def)

text \<open>Once the account is found and its password is set, the rest of the login runs.\<close>

lemma login_try_found:
  assumes "f GetUserByEmail = None" "f UpdateUser = None"
    and "find_account (login_email u) (accounts w) = Some a"
  shows "login_try f u p s w =
     await (users_get f (acc_uid a)) (\<lambda>userDoc.
       case userDoc of
         None \<Rightarrow> throw (PlainError ''User document not found'')
       | Some d \<Rightarrow>
           await (users_update_lastLogin f (acc_uid a)) (\<lambda>_.
           return (s\<lparr>s_uid := Some (acc_uid a), s_isAdmin := Some (d_isAdmin d)\<rparr>)))
       (after_update (acc_uid a) p w)"
proof -
  from assms(3) obtain b where "find (\<lambda>b. acc_uid b = acc_uid a) (accounts w) = Some b"
    using find_account_uid by fastforce
  with assms show ?thesis
    by (simp add: login_try_def await_def getUserByEmail_def updateUser_def invoke_def
        after_update_def Let_def)
qed

lemma api_user_no_uid:
  "s_uid s = None \<Longrightarrow> api_user f t s w = (json 200 LoggedOut, Some s, w)"
  by (simp add: api_user_def)

lemma serve_api_user_absent:
  "sessions w t = None \<Longrightarrow> fst (serve (api_user f) (Some t) w) = json 200 LoggedOut"
  by (simp add: serve_def load_session_def generate_def api_user_no_uid empty_session_def)

lemma register_success_account:
  assumes "u \<noteq> []" "p \<noteq> []"
    and "register f (Some u) (Some p) t s w = (r, so, w1)" "status r = 200"
  shows "find_account (login_email u) (accounts w1) \<noteq> None"
  using assms
  by (auto simp: register_def register_try_def await_def createUser_def users_set_def
      invoke_def Let_def json_def find_account_snoc
      split: option.splits sum.splits prod.splits if_splits)

lemma register_createUser_fails:
  assumes "u \<noteq> []" "p \<noteq> []"
    and "f CreateUser \<noteq> None \<or> find_account (login_email u) (accounts w) \<noteq> None"
  shows "register f (Some u) (Some p) t s w =
           (json 400 (ErrorMsg
              (if f CreateUser = None \<or> f CreateUser = Some ''auth/email-already-exists''
               then ''Username already exists'' else ''Registration failed'')),
            Some s, invoke CreateUser w)"
  using assms
  by (auto simp: register_def register_try_def await_def createUser_def invoke_def Let_def
      split: option.splits)

subsection \<open>Login\<close>

text \<open>
  C1, amended. For every Login call with a non-empty username and password whose login
  identifier resolves to an existing account \<open>a\<close> of the identity provider: when the
  provider accepts the credential update, the account's stored password is the supplied one
  when the handler returns, whatever it was before; this happens before the profile is
  loaded, the first three operations of the request being the lookup, the password update
  and the profile fetch in this order; and when moreover the profile exists and the store
  does not fail, the answer is success and the session carries the account id and the
  profile's admin flag. When the provider rejects the update, the answer is 401 'Invalid
  credentials', the session is left as it was and the stored password is unchanged. No
  hypothesis relates the supplied password to the stored one.
\<close>

theorem login_resets_credential:
  assumes "u \<noteq> []" "p \<noteq> []"
    and "f GetUserByEmail = None"
    and "find_account (login_email u) (accounts w) = Some a"
  shows "case login f (Some u) (Some p) t s w of (r, so, w') \<Rightarrow>
           (f UpdateUser = None \<longrightarrow>
              find_account (login_email u) (accounts w') = Some (a\<lparr>acc_password := p\<rparr>)
            \<and> take 3 (drop (length (calls w)) (calls w')) = [GetUserByEmail, UpdateUser, DocGet]
            \<and> (f DocGet = None \<and> f DocUpdate = None \<longrightarrow>
                 (\<forall>d. users w (acc_uid a) = Some d \<longrightarrow>
                    r = json 200 Success
                  \<and> so = Some (s\<lparr>s_uid := Some (acc_uid a), s_isAdmin := Some (d_isAdmin d)\<rparr>))))
         \<and> (f UpdateUser \<noteq> None \<longrightarrow>
              r = json 401 (ErrorMsg ''Invalid credentials'') \<and> so = Some s
            \<and> find_account (login_email u) (accounts w') = Some a)"
proof (cases "f UpdateUser")
  case None
  show ?thesis
    using assms(1,2) None
    by (auto simp: login_def login_try_found[OF assms(3) None assms(4)] await_def users_get_def
        users_update_lastLogin_def throw_def return_def invoke_def Let_def after_update_simps
        after_update_account[OF assms(4)]
        split: option.splits)
next
  case (Some c)
  show ?thesis
    using assms Some
    by (simp add: login_def login_try_def await_def getUserByEmail_def updateUser_def
        invoke_def Let_def)
qed

theorem login_resets_credential_witness:
  "''alice'' \<noteq> [] \<and> ''letmein'' \<noteq> [] \<and> ''guess'' \<noteq> []
 \<and> no_faults GetUserByEmail = None \<and> no_faults UpdateUser = None
 \<and> find_account (login_email ''alice'') (accounts world1) = Some alice
 \<and> acc_password alice = ''secret1''
 \<and> no_faults DocGet = None \<and> no_faults DocUpdate = None
 \<and> users world1 (acc_uid alice) = Some alice_doc
 \<and> fst (login no_faults (Some ''alice'') (Some ''letmein'') 3 empty_session world1)
     = json 200 Success
 \<and> fst (snd (login no_faults (Some ''alice'') (Some ''letmein'') 3 empty_session world1))
     = Some \<lparr>s_uid = Some 0, s_isAdmin = Some False\<rparr>
 \<and> find_account (login_email ''alice'')
      (accounts (snd (snd
         (login no_faults (Some ''alice'') (Some ''letmein'') 3 empty_session world1))))
     = Some (alice\<lparr>acc_password := ''letmein''\<rparr>)
 \<and> (no_faults(UpdateUser \<mapsto> ''auth/invalid-password'')) GetUserByEmail = None
 \<and> (no_faults(UpdateUser \<mapsto> ''auth/invalid-password'')) UpdateUser \<noteq> None
 \<and> fst (login (no_faults(UpdateUser \<mapsto> ''auth/invalid-password''))
          (Some ''alice'') (Some ''guess'') 3 empty_session world1)
     = json 401 (ErrorMsg ''Invalid credentials'')
 \<and> find_account (login_email ''alice'')
      (accounts (snd (snd
         (login (no_faults(UpdateUser \<mapsto> ''auth/invalid-password''))
            (Some ''alice'') (Some ''guess'') 3 empty_session world1))))
     = Some alice"
proof -
  have h: "''alice'' \<noteq> []" "''letmein'' \<noteq> []"
    "no_faults GetUserByEmail = None"
    "find_account (login_email ''alice'') (accounts world1) = Some alice"
    by (simp_all add: run_defs)
  have h': "''alice'' \<noteq> []" "''guess'' \<noteq> []"
    "(no_faults(UpdateUser \<mapsto> ''auth/invalid-password'')) GetUserByEmail = None"
    "find_account (login_email ''alice'') (accounts world1) = Some alice"
    by (simp_all add: run_defs)
  show ?thesis
    using h h'
      login_resets_credential
        [where u = "''alice''" and p = "''letmein''" and f = no_faults and w = world1
           and a = alice and t = 3 and s = empty_session, OF h]
      login_resets_credential
        [where u = "''alice''" and p = "''guess''"
           and f = "no_faults(UpdateUser \<mapsto> ''auth/invalid-password'')" and w = world1
           and a = alice and t = 3 and s = empty_session, OF h']
    by (simp add: run_defs)
qed

text \<open>
  C1 as stated fails: alice has an account and a profile, the caller supplies her username
  and the non-empty password 'guess', and the provider rejects the update of line 122 with
  auth/invalid-password. The catch of lines 139 to 142 answers 401, no session is created
  and the stored password is still the old one.
\<close>

theorem login_any_password_counterexample:
  "''alice'' \<noteq> [] \<and> ''guess'' \<noteq> []
 \<and> find_account (login_email ''alice'') (accounts world1) = Some alice
 \<and> users world1 (acc_uid alice) = Some alice_doc
 \<and> fst (login (no_faults(UpdateUser \<mapsto> ''auth/invalid-password''))
          (Some ''alice'') (Some ''guess'') 3 empty_session world1)
     = json 401 (ErrorMsg ''Invalid credentials'')
 \<and> fst (snd (login (no_faults(UpdateUser \<mapsto> ''auth/invalid-password''))
          (Some ''alice'') (Some ''guess'') 3 empty_session world1))
     = Some empty_session
 \<and> accounts (snd (snd (login (no_faults(UpdateUser \<mapsto> ''auth/invalid-password''))
          (Some ''alice'') (Some ''guess'') 3 empty_session world1)))
     = [alice]
 \<and> acc_password alice \<noteq> ''guess''"
  by (simp add: run_defs)

text \<open>
  C2. For every Login call with a non-empty username and password in which a step fails
  (the account lookup errors or finds no account, the password update errors, the profile
  fetch errors, the profile record is absent, or the update of the last-login time errors),
  the answer is the one response 401 'Invalid credentials' whichever step failed, the
  session of the request is left as it was and the session store is not touched.
\<close>

theorem login_failure_opaque:
  assumes "u \<noteq> []" "p \<noteq> []"
    and "f GetUserByEmail \<noteq> None
       \<or> find_account (login_email u) (accounts w) = None
       \<or> f UpdateUser \<noteq> None
       \<or> f DocGet \<noteq> None
       \<or> (\<exists>a. find_account (login_email u) (accounts w) = Some a \<and> users w (acc_uid a) = None)
       \<or> f DocUpdate \<noteq> None"
  shows "case login f (Some u) (Some p) t s w of (r, so, w') \<Rightarrow>
           r = json 401 (ErrorMsg ''Invalid credentials'') \<and> so = Some s
         \<and> sessions w' = sessions w"
  using assms
  by (auto simp: login_def login_try_def await_def getUserByEmail_def updateUser_def
      users_get_def users_update_lastLogin_def throw_def return_def invoke_def Let_def
      split: option.splits sum.splits prod.splits)

theorem login_failure_opaque_witness:
  "''nobody'' \<noteq> [] \<and> ''x'' \<noteq> []
 \<and> find_account (login_email ''nobody'') (accounts world2) = None
 \<and> login no_faults (Some ''nobody'') (Some ''x'') 9 empty_session world2
     = (json 401 (ErrorMsg ''Invalid credentials''), Some empty_session,
        world2\<lparr>calls := [GetUserByEmail]\<rparr>)
 \<and> (no_faults(DocGet \<mapsto> ''unavailable'')) DocGet \<noteq> None
 \<and> fst (login (no_faults(DocGet \<mapsto> ''unavailable'')) (Some ''alice'') (Some ''secret1'') 9
          empty_session world2)
     = json 401 (ErrorMsg ''Invalid credentials'')
 \<and> users world1_orphan 0 = None
 \<and> fst (login no_faults (Some ''alice'') (Some ''secret1'') 9 empty_session world1_orphan)
     = json 401 (ErrorMsg ''Invalid credentials'')"
  using
    login_failure_opaque
      [where u = "''nobody''" and p = "''x''" and f = no_faults and w = world2
         and t = 9 and s = empty_session]
    login_failure_opaque
      [where u = "''alice''" and p = "''secret1''" and f = "no_faults(DocGet \<mapsto> ''unavailable'')"
         and w = world2 and t = 9 and s = empty_session]
    login_failure_opaque
      [where u = "''alice''" and p = "''secret1''" and f = no_faults
         and w = world1_orphan and t = 9 and s = empty_session]
  by (simp add: run_defs)

text \<open>
  C8. When Login fails after the credential update (the profile fetch errors or the
  profile document is missing), the caller receives 401 'Invalid credentials' and the
  session is left as it was, while the account's stored password in the world that the
  handler returns is the supplied one: the update is not rolled back.
\<close>

theorem login_failure_keeps_new_credential:
  assumes "u \<noteq> []" "p \<noteq> []"
    and "f GetUserByEmail = None" "f UpdateUser = None"
    and "find_account (login_email u) (accounts w) = Some a"
    and "f DocGet \<noteq> None \<or> users w (acc_uid a) = None"
  shows "case login f (Some u) (Some p) t s w of (r, so, w') \<Rightarrow>
           r = json 401 (ErrorMsg ''Invalid credentials'') \<and> so = Some s
         \<and> sessions w' = sessions w
         \<and> find_account (login_email u) (accounts w') = Some (a\<lparr>acc_password := p\<rparr>)"
  using assms(1,2,6)
  by (auto simp: login_def login_try_found[OF assms(3,4,5)] await_def users_get_def
      users_update_lastLogin_def throw_def return_def invoke_def Let_def after_update_simps
      after_update_account[OF assms(5)]
      split: option.splits)

theorem login_failure_keeps_new_credential_witness:
  "''alice'' \<noteq> [] \<and> ''guess'' \<noteq> []
 \<and> no_faults GetUserByEmail = None \<and> no_faults UpdateUser = None
 \<and> find_account (login_email ''alice'') (accounts world1_orphan) = Some alice
 \<and> acc_password alice = ''secret1''
 \<and> users world1_orphan (acc_uid alice) = None
 \<and> fst (login no_faults (Some ''alice'') (Some ''guess'') 3 empty_session world1_orphan)
     = json 401 (ErrorMsg ''Invalid credentials'')
 \<and> fst (snd (login no_faults (Some ''alice'') (Some ''guess'') 3 empty_session world1_orphan))
     = Some empty_session
 \<and> accounts (snd (snd
      (login no_faults (Some ''alice'') (Some ''guess'') 3 empty_session world1_orphan)))
     = [alice\<lparr>acc_password := ''guess''\<rparr>]"
proof -
  have h: "''alice'' \<noteq> []" "''guess'' \<noteq> []"
    "no_faults GetUserByEmail = None" "no_faults UpdateUser = None"
    "find_account (login_email ''alice'') (accounts world1_orphan) = Some alice"
    "no_faults DocGet \<noteq> None \<or> users world1_orphan (acc_uid alice) = None"
    by (simp_all add: run_defs)
  show ?thesis
    using h login_failure_keeps_new_credential
      [where u = "''alice''" and p = "''guess''" and f = no_faults and w = world1_orphan
         and a = alice and t = 3 and s = empty_session, OF h]
    by (simp add: run_defs)
qed

subsection \<open>Self-healing session check and logout\<close>

text \<open>
  C5. For every WhoAmI call with a session present whose profile record is missing (the
  fetch and the destroy not failing), the session record is destroyed, so that the store
  no longer resolves the token, and the answer is loggedIn false; a subsequent WhoAmI with
  the same token also answers loggedIn false, whatever the services do then.
\<close>

theorem whoami_self_heal:
  assumes "sessions w t = Some s" "s_uid s = Some u" "users w u = None"
    and "f DocGet = None" "f SessionDestroy = None"
  shows "case serve (api_user f) (Some t) w of (r, t', w') \<Rightarrow>
           r = json 200 LoggedOut \<and> t' = t \<and> sessions w' t = None
         \<and> (\<forall>f'. fst (serve (api_user f') (Some t) w') = json 200 LoggedOut)"
proof -
  define w' where
    "w' = (invoke SessionDestroy (invoke DocGet w))\<lparr>sessions := (sessions w)(t := None)\<rparr>"
  have run: "serve (api_user f) (Some t) w = (json 200 LoggedOut, t, w')"
    using assms
    by (simp add: serve_def load_session_def generate_def api_user_def users_get_def
        session_destroy_def save_session_def invoke_def Let_def w'_def)
  have gone: "sessions w' t = None"
    by (simp add: w'_def)
  show ?thesis
    using gone by (simp add: run serve_api_user_absent)
qed

theorem whoami_self_heal_witness:
  "sessions world2_orphan 7 = Some alice_session \<and> s_uid alice_session = Some 0
 \<and> users world2_orphan 0 = None
 \<and> no_faults DocGet = None \<and> no_faults SessionDestroy = None
 \<and> fst (serve (api_user no_faults) (Some 7) world2_orphan) = json 200 LoggedOut
 \<and> sessions (snd (snd (serve (api_user no_faults) (Some 7) world2_orphan))) 7 = None
 \<and> fst (serve (api_user no_faults) (Some 7)
          (snd (snd (serve (api_user no_faults) (Some 7) world2_orphan))))
     = json 200 LoggedOut"
proof -
  have h: "sessions world2_orphan 7 = Some alice_session" "s_uid alice_session = Some 0"
    "users world2_orphan 0 = None" "no_faults DocGet = None" "no_faults SessionDestroy = None"
    by (simp_all add: run_defs)
  show ?thesis
    using h whoami_self_heal
      [where w = world2_orphan and t = 7 and s = alice_session and u = 0 and f = no_faults,
       OF h]
    by (simp add: run_defs)
qed

text \<open>
  C6. Logout invokes the destroy of the session record unconditionally, whatever the
  session holds. The answer is 500 'Logout failed' only if the destroy itself errors;
  otherwise it is the success response with the cookie cleared, the store resolves neither
  the token of the request nor the id of its session any more, and a subsequent WhoAmI
  with the same token answers loggedIn false.
\<close>

theorem logout_destroys:
  "case serve (logout f) cookie w of (r, t', w') \<Rightarrow>
     calls w' = calls w @ [SessionDestroy]
   \<and> (f SessionDestroy \<noteq> None \<longrightarrow> r = json 500 (ErrorMsg ''Logout failed''))
   \<and> (f SessionDestroy = None \<longrightarrow>
        r = (json 200 Success)\<lparr>clears_cookie := True\<rparr>
      \<and> sessions w' t' = None
      \<and> (\<forall>t. cookie = Some t \<longrightarrow> sessions w' t = None)
      \<and> (\<forall>f'. fst (serve (api_user f') (Some t') w') = json 200 LoggedOut)
      \<and> (\<forall>f' t. cookie = Some t \<longrightarrow>
            fst (serve (api_user f') (Some t) w') = json 200 LoggedOut))"
proof (cases "f SessionDestroy")
  case (Some c)
  then show ?thesis
    by (simp add: serve_def load_session_def generate_def logout_def session_destroy_def
        save_session_def invoke_def Let_def split: option.splits prod.splits)
next
  case None
  obtain r t' w' where run: "serve (logout f) cookie w = (r, t', w')"
    by (cases "serve (logout f) cookie w") auto
  from run None have r: "r = (json 200 Success)\<lparr>clears_cookie := True\<rparr>"
    and c: "calls w' = calls w @ [SessionDestroy]"
    and g1: "sessions w' t' = None"
    by (auto simp: serve_def load_session_def generate_def logout_def session_destroy_def
        save_session_def invoke_def Let_def split: option.splits prod.splits)
  from run None have g2: "\<And>t. cookie = Some t \<Longrightarrow> sessions w' t = None"
    by (auto simp: serve_def load_session_def generate_def logout_def session_destroy_def
        save_session_def invoke_def Let_def split: option.splits prod.splits)
  show ?thesis
    using None r c g1 g2 by (simp add: run serve_api_user_absent)
qed

theorem logout_destroys_witness:
  "no_faults SessionDestroy = None
 \<and> sessions world2 7 = Some alice_session
 \<and> fst (serve (logout no_faults) (Some 7) world2) = (json 200 Success)\<lparr>clears_cookie := True\<rparr>
 \<and> sessions (snd (snd (serve (logout no_faults) (Some 7) world2))) 7 = None
 \<and> fst (serve (api_user no_faults) (Some 7) (snd (snd (serve (logout no_faults) (Some 7) world2))))
     = json 200 LoggedOut
 \<and> (no_faults(SessionDestroy \<mapsto> ''unavailable'')) SessionDestroy \<noteq> None
 \<and> fst (serve (logout (no_faults(SessionDestroy \<mapsto> ''unavailable''))) (Some 7) world2)
     = json 500 (ErrorMsg ''Logout failed'')"
  using
    logout_destroys [where f = no_faults and cookie = "Some 7" and w = world2]
    logout_destroys [where f = "no_faults(SessionDestroy \<mapsto> ''unavailable'')"
      and cookie = "Some 7" and w = world2]
  by (simp add: run_defs)

subsection \<open>Registration\<close>

text \<open>
  C7. Registering the same username twice: after a first registration that succeeded, a
  second registration of that username (with any non-empty password) answers 400
  'Username already exists' when the provider reports the duplicate; any other failure
  code of the provider's account creation, in any world, answers 400 'Registration
  failed'; and the failed second call leaves the profile records and the accounts as the
  first call left them.
\<close>

theorem register_twice:
  assumes "u \<noteq> []" "p \<noteq> []" "p' \<noteq> []"
    and "register f (Some u) (Some p) t s w = (r, so, w1)" "status r = 200"
  shows "(case register f' (Some u) (Some p') t' s' w1 of (r', so', w2) \<Rightarrow>
            (f' CreateUser = None \<longrightarrow> r' = json 400 (ErrorMsg ''Username already exists''))
          \<and> users w2 = users w1 \<and> accounts w2 = accounts w1)
       \<and> (\<forall>c. f' CreateUser = Some c \<and> c \<noteq> ''auth/email-already-exists'' \<longrightarrow>
              fst (register f' (Some u) (Some p') t' s' w0)
                = json 400 (ErrorMsg ''Registration failed''))"
proof -
  have dup: "find_account (login_email u) (accounts w1) \<noteq> None"
    using register_success_account [OF assms(1,2,4,5)] .
  have second: "register f' (Some u) (Some p') t' s' w1 =
      (json 400 (ErrorMsg
         (if f' CreateUser = None \<or> f' CreateUser = Some ''auth/email-already-exists''
          then ''Username already exists'' else ''Registration failed'')),
       Some s', invoke CreateUser w1)"
    using dup by (intro register_createUser_fails [OF assms(1,3)]) simp
  have other: "fst (register f' (Some u) (Some p') t' s' w0)
      = json 400 (ErrorMsg ''Registration failed'')"
    if "f' CreateUser = Some c" "c \<noteq> ''auth/email-already-exists''" for c
    using that by (simp add: register_createUser_fails [OF assms(1,3)])
  show ?thesis
    using other by (simp add: second invoke_def)
qed

theorem register_twice_witness:
  "''alice'' \<noteq> [] \<and> ''secret1'' \<noteq> [] \<and> ''other'' \<noteq> []
 \<and> status (fst (register no_faults (Some ''alice'') (Some ''secret1'') 0 empty_session world0))
     = 200
 \<and> fst (register no_faults (Some ''alice'') (Some ''other'') 1 empty_session
          (snd (snd (register no_faults (Some ''alice'') (Some ''secret1'') 0 empty_session world0))))
     = json 400 (ErrorMsg ''Username already exists'')
 \<and> users (snd (snd (register no_faults (Some ''alice'') (Some ''other'') 1 empty_session
          (snd (snd (register no_faults (Some ''alice'') (Some ''secret1'') 0 empty_session world0))))))
      0
     = Some alice_doc
 \<and> fst (register (no_faults(CreateUser \<mapsto> ''auth/invalid-email'')) (Some ''alice'')
          (Some ''other'') 1 empty_session world0)
     = json 400 (ErrorMsg ''Registration failed'')"
proof -
  let ?first = "register no_faults (Some ''alice'') (Some ''secret1'') 0 empty_session world0"
  have h: "''alice'' \<noteq> []" "''secret1'' \<noteq> []" "''other'' \<noteq> []"
    "?first = (fst ?first, fst (snd ?first), snd (snd ?first))"
    "status (fst ?first) = 200"
    by (simp_all add: run_defs)
  show ?thesis
    using h
      register_twice
        [where u = "''alice''" and p = "''secret1''" and p' = "''other''" and f = no_faults
           and t = 0 and s = empty_session and w = world0 and f' = no_faults and t' = 1
           and s' = empty_session and w0 = world0, OF h]
      register_twice
        [where u = "''alice''" and p = "''secret1''" and p' = "''other''" and f = no_faults
           and t = 0 and s = empty_session and w = world0
           and f' = "no_faults(CreateUser \<mapsto> ''auth/invalid-email'')" and t' = 1
           and s' = empty_session and w0 = world0, OF h]
    by (simp add: run_defs)
qed

end
